theory Spec2Isabelle
  imports Main
begin

section \<open>Data model of App.tsx\<close>

text \<open>
  The types of \<^verbatim>\<open>src/src/App.tsx\<close>: the access level, the admin settings, a history
  item and a chat message. A field whose name is taken by another record of this file
  or by a HOL constant carries a prefix (\<open>h_id\<close> for \<^verbatim>\<open>HistoryItem.id\<close>).
  JavaScript strings are modelled as \<open>string\<close>; \<^verbatim>\<open>===\<close> on strings is equality.
\<close>

datatype AccessLevel = none | client | admin

record AdminSettings =
  accessSecret :: string
  isGateEnabled :: bool

record HistoryItem =
  h_id :: string
  h_prompt :: string
  h_timestamp :: int
  h_userInput :: string
  h_tone :: string
  h_targetAudience :: string

datatype Role = user | model

record ChatMessage =
  role :: Role
  content :: string

datatype ActiveTab = refine | test

text \<open>
  The backend collaborator. \<open>GoogleGenAI\<close> is the client built from the API key;
  \<open>Chat\<close> is a conversation handle, created with a system instruction and a seed
  history. The two fixed instruction texts are kept by name.
\<close>

datatype GoogleGenAI = GoogleGenAI string

datatype SystemInstruction =
  GENERATE_SYSTEM_INSTRUCTION | REFINE_SYSTEM_INSTRUCTION | PromptInstruction string

record Chat =
  chat_systemInstruction :: SystemInstruction
  chat_history :: "string list"

text \<open>
  Every call made on the backend is appended to a log, so that "no stream is requested"
  is a statement about the state.
\<close>

datatype backend_call =
  GenerateContentStream SystemInstruction string
| ChatsCreate Chat
| SendMessageStream string

text \<open>
  The state owned by the \<^verbatim>\<open>App\<close> component that the generation and chat handlers
  read and write: the \<^verbatim>\<open>useState\<close> cells, the two \<^verbatim>\<open>useRef\<close> cells
  (\<open>originalPromptForChat\<close>, \<open>testChatRef\<close>), the persisted history, and the log of
  backend calls.
\<close>

record session =
  userInput :: string
  tone :: string
  targetAudience :: string
  generatedPrompt :: string
  isLoading :: bool
  error :: "string option"
  history :: "HistoryItem list"
  activeTab :: ActiveTab
  chatHistory :: "ChatMessage list"
  isChatLoading :: bool
  originalPromptForChat :: string
  testChatHistory :: "ChatMessage list"
  isTestChatLoading :: bool
  testChatRef :: "Chat option"
  backendCalls :: "backend_call list"

definition TONES :: "string list" where
  "TONES = [''Formal'', ''Casual'', ''Humorous'', ''Authoritative'', ''Friendly'', ''Empathetic'']"

text \<open>The initial values of the state cells, with the history read from storage.\<close>

definition initial_session :: "HistoryItem list \<Rightarrow> session" where
  "initial_session stored =
     \<lparr>userInput = '''', tone = hd TONES, targetAudience = '''', generatedPrompt = '''',
      isLoading = False, error = None, history = stored, activeTab = refine,
      chatHistory = [], isChatLoading = False, originalPromptForChat = '''',
      testChatHistory = [], isTestChatLoading = False, testChatRef = None,
      backendCalls = []\<rparr>"

section \<open>The backend stream as an input\<close>

text \<open>
  A chunk of a stream carries a text or none (\<^verbatim>\<open>chunk.text\<close> is a string or
  undefined). What is thrown is an \<^verbatim>\<open>Error\<close> with a message or some other value.
  A stream request either rejects, or yields its chunks in order and then ends or fails.
\<close>

record chunk =
  chunk_text :: "string option"

datatype thrown = ErrorObject string | OtherValue

datatype stream_outcome =
  Rejected thrown
| Streamed "chunk list" "thrown option"

text \<open>\<^verbatim>\<open>err instanceof Error ? err.message : 'An unknown error occurred.'\<close>\<close>

fun errorMessage :: "thrown \<Rightarrow> string" where
  "errorMessage (ErrorObject msg) = msg"
| "errorMessage OtherValue = ''An unknown error occurred.''"

text \<open>
  The ordered concatenation of the text fragments of a stream; a chunk without text
  contributes nothing.
\<close>

definition fragment :: "chunk \<Rightarrow> string" where
  "fragment c = (case chunk_text c of None \<Rightarrow> [] | Some t \<Rightarrow> t)"

definition fragments :: "chunk list \<Rightarrow> string" where
  "fragments cs = concat (map fragment cs)"

section \<open>Handlers that only rewrite state\<close>

definition resetChatStates :: "session \<Rightarrow> session" where
  "resetChatStates s =
     s\<lparr>chatHistory := [], testChatHistory := [], testChatRef := None,
       activeTab := refine, error := None\<rparr>"

definition handleClearHistoryItem :: "string \<Rightarrow> session \<Rightarrow> session" where
  "handleClearHistoryItem i s = s\<lparr>history := filter (\<lambda>item. h_id item \<noteq> i) (history s)\<rparr>"

definition handleClearTestChat :: "session \<Rightarrow> session" where
  "handleClearTestChat s = s\<lparr>testChatHistory := [], testChatRef := None\<rparr>"

section \<open>Prompt generation\<close>

text \<open>The composed user prompt, a template literal spanning five lines.\<close>

definition fullPrompt :: "string \<Rightarrow> string \<Rightarrow> string \<Rightarrow> string" where
  "fullPrompt input genTone genAudience =
     ''Generate a system prompt for an AI assistant.\<newline>'' @
     ''      \<newline>'' @
     ''            **Assistant's Purpose:** '' @ input @ ''\<newline>'' @
     ''            **Desired Tone:** '' @ genTone @ ''\<newline>'' @
     ''            **Target Audience:** '' @ genAudience"

text \<open>
  The \<^verbatim>\<open>for await\<close> loop of \<^verbatim>\<open>handleGeneratePrompt\<close>: a chunk whose text is
  undefined or empty is skipped; any other text is appended to the local
  \<open>finalPrompt\<close> and, through a functional update, to the \<open>generatedPrompt\<close> cell.
\<close>

fun generate_loop :: "chunk list \<Rightarrow> string \<Rightarrow> session \<Rightarrow> string \<times> session" where
  "generate_loop [] finalPrompt s = (finalPrompt, s)"
| "generate_loop (c # cs) finalPrompt s =
     (case chunk_text c of
        None \<Rightarrow> generate_loop cs finalPrompt s
      | Some chunkText \<Rightarrow>
          if chunkText = [] then generate_loop cs finalPrompt s
          else generate_loop cs (finalPrompt @ chunkText)
                 (s\<lparr>generatedPrompt := generatedPrompt s @ chunkText\<rparr>))"

text \<open>
  The state in which the stream is requested: the loading flag is set, the error and the
  previous prompt are cleared, and the chat states are reset.
\<close>

definition generate_enter :: "session \<Rightarrow> session" where
  "generate_enter s =
     resetChatStates (s\<lparr>isLoading := True, error := None, generatedPrompt := ''''\<rparr>)"

text \<open>
  \<^verbatim>\<open>handleGeneratePrompt\<close>. \<open>uuid\<close> and \<open>now\<close> are what \<^verbatim>\<open>crypto.randomUUID()\<close>
  and \<^verbatim>\<open>Date.now()\<close> return; \<open>outcome\<close> is what the backend does with the request.
  The updater given to \<^verbatim>\<open>setHistory\<close> is applied by \<^verbatim>\<open>useLocalStorage\<close> to the
  history of the render that created the handler, which is the history on entry.
  The \<^verbatim>\<open>catch\<close> block sets the error; the \<^verbatim>\<open>finally\<close> block clears the loading flag.
\<close>

definition handleGeneratePrompt ::
  "GoogleGenAI option \<Rightarrow> string \<Rightarrow> string \<Rightarrow> string \<Rightarrow> string \<Rightarrow> int \<Rightarrow>
   stream_outcome \<Rightarrow> session \<Rightarrow> session" where
  "handleGeneratePrompt ai input genTone genAudience uuid now outcome s =
     (case ai of
        None \<Rightarrow> s\<lparr>error := Some ''AI client not initialized. Please configure your API key.''\<rparr>
      | Some _ \<Rightarrow>
          let s1 = generate_enter s;
              s2 = s1\<lparr>backendCalls := backendCalls s1 @
                     [GenerateContentStream GENERATE_SYSTEM_INSTRUCTION
                        (fullPrompt input genTone genAudience)]\<rparr>
          in (case outcome of
                Rejected err \<Rightarrow> s2\<lparr>error := Some (errorMessage err), isLoading := False\<rparr>
              | Streamed chunks failure \<Rightarrow>
                  (case generate_loop chunks '''' s2 of
                     (finalPrompt, s3) \<Rightarrow>
                       (case failure of
                          Some err \<Rightarrow> s3\<lparr>error := Some (errorMessage err), isLoading := False\<rparr>
                        | None \<Rightarrow>
                            s3\<lparr>originalPromptForChat := finalPrompt,
                               history :=
                                 \<lparr>h_id = uuid, h_prompt = finalPrompt, h_timestamp = now,
                                  h_userInput = input, h_tone = genTone,
                                  h_targetAudience = genAudience\<rparr> # take 49 (history s),
                               isLoading := False\<rparr>))))"

section \<open>A refine-chat turn\<close>

text \<open>
  The updater \<^verbatim>\<open>newHistory[newHistory.length - 1].content = c\<close>. On an empty list the
  element read is undefined and the assignment throws a TypeError: the result is \<open>None\<close>.
\<close>

definition set_last_content :: "string \<Rightarrow> ChatMessage list \<Rightarrow> ChatMessage list option" where
  "set_last_content c prev =
     (if prev = [] then None
      else Some (prev[length prev - 1 := (prev ! (length prev - 1))\<lparr>content := c\<rparr>]))"

text \<open>The \<^verbatim>\<open>for await\<close> loop of \<^verbatim>\<open>handleSendMessage\<close>.\<close>

fun refine_loop :: "chunk list \<Rightarrow> string \<Rightarrow> session \<Rightarrow> (string \<times> session) option" where
  "refine_loop [] finalResponse s = Some (finalResponse, s)"
| "refine_loop (c # cs) finalResponse s =
     (case chunk_text c of
        None \<Rightarrow> refine_loop cs finalResponse s
      | Some chunkText \<Rightarrow>
          if chunkText = [] then refine_loop cs finalResponse s
          else (case set_last_content (finalResponse @ chunkText) (chatHistory s) of
                  None \<Rightarrow> None
                | Some newHistory \<Rightarrow>
                    refine_loop cs (finalResponse @ chunkText) (s\<lparr>chatHistory := newHistory\<rparr>)))"

text \<open>The \<^verbatim>\<open>catch\<close> and \<^verbatim>\<open>finally\<close> blocks of \<^verbatim>\<open>handleSendMessage\<close>.\<close>

definition refine_catch :: "thrown \<Rightarrow> session \<Rightarrow> session option" where
  "refine_catch err s =
     (case set_last_content (''Error: '' @ errorMessage err) (chatHistory s) of
        None \<Rightarrow> None
      | Some newHistory \<Rightarrow> Some (s\<lparr>chatHistory := newHistory, isChatLoading := False\<rparr>))"

text \<open>
  \<^verbatim>\<open>handleSendMessage\<close>. The chat is created with the refine instruction and the prompt
  anchor as its seed; \<open>outcome\<close> is what \<^verbatim>\<open>sendMessageStream\<close> does. The result is
  \<open>None\<close> when an updater throws.
\<close>

definition handleSendMessage ::
  "GoogleGenAI option \<Rightarrow> string \<Rightarrow> stream_outcome \<Rightarrow> session \<Rightarrow> session option" where
  "handleSendMessage ai message outcome s =
     (case ai of
        None \<Rightarrow>
          Some (s\<lparr>error := Some ''AI client not initialized. Please configure your API key.''\<rparr>)
      | Some _ \<Rightarrow>
          let currentChatHistory =
                chatHistory s @ [\<lparr>role = user, content = message\<rparr>, \<lparr>role = model, content = ''''\<rparr>];
              s1 = s\<lparr>isChatLoading := True, chatHistory := currentChatHistory\<rparr>;
              s2 = s1\<lparr>backendCalls := backendCalls s1 @
                     [ChatsCreate \<lparr>chat_systemInstruction = REFINE_SYSTEM_INSTRUCTION,
                                   chat_history = [originalPromptForChat s1]\<rparr>,
                      SendMessageStream message]\<rparr>
          in (case outcome of
                Rejected err \<Rightarrow> refine_catch err s2
              | Streamed chunks failure \<Rightarrow>
                  (case refine_loop chunks '''' s2 of
                     None \<Rightarrow> None
                   | Some (finalResponse, s3) \<Rightarrow>
                       (case failure of
                          Some err \<Rightarrow> refine_catch err s3
                        | None \<Rightarrow>
                            Some (s3\<lparr>generatedPrompt := finalResponse,
                                     originalPromptForChat := finalResponse,
                                     isChatLoading := False\<rparr>)))))"

section \<open>The backend client\<close>

text \<open>
  The memoised \<^verbatim>\<open>ai\<close>: null when \<^verbatim>\<open>VITE_API_KEY\<close> is undefined or empty, or when
  the constructor throws (\<open>ctor_throws\<close>, a fact of the library).
\<close>

definition ai_client :: "string option \<Rightarrow> bool \<Rightarrow> GoogleGenAI option" where
  "ai_client VITE_API_KEY ctor_throws =
     (case VITE_API_KEY of
        None \<Rightarrow> None
      | Some k \<Rightarrow> if k = [] then None else if ctor_throws then None else Some (GoogleGenAI k))"

section \<open>Successive generations\<close>

text \<open>
  One completed generation: the three arguments of the call, the identifier and the time
  drawn for its history item, and the chunks of its stream. \<open>generate_all\<close> runs the
  handler once per element, in order, each stream ending without failure.
\<close>

record generation =
  g_input :: string
  g_tone :: string
  g_audience :: string
  g_uuid :: string
  g_now :: int
  g_chunks :: "chunk list"

fun generate_all :: "GoogleGenAI \<Rightarrow> generation list \<Rightarrow> session \<Rightarrow> session" where
  "generate_all ai [] s = s"
| "generate_all ai (g # gs) s =
     generate_all ai gs
       (handleGeneratePrompt (Some ai) (g_input g) (g_tone g) (g_audience g) (g_uuid g) (g_now g)
          (Streamed (g_chunks g) None) s)"

text \<open>The history item a completed generation stands for.\<close>

definition item_of :: "generation \<Rightarrow> HistoryItem" where
  "item_of g =
     \<lparr>h_id = g_uuid g, h_prompt = fragments (g_chunks g), h_timestamp = g_now g,
      h_userInput = g_input g, h_tone = g_tone g, h_targetAudience = g_audience g\<rparr>"

section \<open>The access gate\<close>

definition ADMIN_CODE :: string where
  "ADMIN_CODE = ''admin-unlock-righteye''"

text \<open>
  The local date read by \<^verbatim>\<open>new Date()\<close>: the day of the month, the month counted from
  zero, and the year.
\<close>

record local_date =
  getDate :: nat
  getMonth :: nat
  getFullYear :: int

text \<open>\<^verbatim>\<open>String(n)\<close> for an integer: its decimal digits, with a sign when negative.\<close>

definition digit_char :: "nat \<Rightarrow> char" where
  "digit_char n = ''0123456789'' ! (n mod 10)"

function string_of_nat :: "nat \<Rightarrow> string" where
  "string_of_nat n =
     (if n < 10 then [digit_char n] else string_of_nat (n div 10) @ [digit_char (n mod 10)])"
  by pat_completeness auto
termination
  by (relation "measure (\<lambda>n. n)") auto

definition string_of_int :: "int \<Rightarrow> string" where
  "string_of_int i = (if i < 0 then CHR ''-'' # string_of_nat (nat (- i)) else string_of_nat (nat i))"

text \<open>
  \<^verbatim>\<open>str.padStart(targetLength, padString)\<close>: the pad string is repeated and cut to the
  missing length.
\<close>

definition padStart :: "nat \<Rightarrow> string \<Rightarrow> string \<Rightarrow> string" where
  "padStart targetLength padString str =
     (if targetLength \<le> length str \<or> padString = [] then str
      else take (targetLength - length str)
             (concat (replicate (targetLength - length str) padString)) @ str)"

definition getClientCode :: "AdminSettings \<Rightarrow> local_date \<Rightarrow> string" where
  "getClientCode adminSettings date =
     (let day = padStart 2 ''0'' (string_of_nat (getDate date));
          month = padStart 2 ''0'' (string_of_nat (getMonth date + 1));
          year = getFullYear date
      in accessSecret adminSettings @ ''-'' @ day @ ''-'' @ month @ ''-'' @ string_of_int year)"

text \<open>
  The gate's own cells (\<open>code\<close>, \<open>gate_error\<close>, \<open>showPassword\<close>) and the access level
  of \<^verbatim>\<open>App\<close>, which the gate writes through \<^verbatim>\<open>setAccessLevel\<close>.
\<close>

record gate =
  accessLevel :: AccessLevel
  code :: string
  gate_error :: string
  showPassword :: bool

definition initial_gate :: gate where
  "initial_gate = \<lparr>accessLevel = none, code = '''', gate_error = '''', showPassword = False\<rparr>"

definition handleSubmit :: "AdminSettings \<Rightarrow> local_date \<Rightarrow> gate \<Rightarrow> gate" where
  "handleSubmit adminSettings date g =
     (if code g = ADMIN_CODE then g\<lparr>accessLevel := admin\<rparr>
      else if code g = getClientCode adminSettings date then g\<lparr>accessLevel := client\<rparr>
      else g\<lparr>gate_error := ''Invalid access code.''\<rparr>)"

text \<open>
  What a user can do at the gate: type into the code field, toggle the visibility of the
  code, submit the form, and press "Continue as Guest". \<^verbatim>\<open>App\<close> renders the gate
  only at access level \<open>none\<close>, and the gate renders the guest button only when the gate
  is not enabled; an event on a control that is not rendered gives \<open>None\<close>.
\<close>

datatype gate_event = ChangeCode string | ToggleShowPassword | Submit | ContinueAsGuest

definition gate_step ::
  "AdminSettings \<Rightarrow> local_date \<Rightarrow> gate_event \<Rightarrow> gate \<Rightarrow> gate option" where
  "gate_step adminSettings date ev g =
     (if accessLevel g = none then
        (case ev of
           ChangeCode v \<Rightarrow> Some (g\<lparr>code := v, gate_error := ''''\<rparr>)
         | ToggleShowPassword \<Rightarrow> Some (g\<lparr>showPassword := \<not> showPassword g\<rparr>)
         | Submit \<Rightarrow> Some (handleSubmit adminSettings date g)
         | ContinueAsGuest \<Rightarrow>
             if isGateEnabled adminSettings then None else Some (g\<lparr>accessLevel := client\<rparr>))
      else None)"

text \<open>A sequence of events, each at the local date of its moment.\<close>

fun gate_run ::
  "AdminSettings \<Rightarrow> (local_date \<times> gate_event) list \<Rightarrow> gate \<Rightarrow> gate option" where
  "gate_run adminSettings [] g = Some g"
| "gate_run adminSettings ((date, ev) # rest) g =
     (case gate_step adminSettings date ev g of
        None \<Rightarrow> None
      | Some g' \<Rightarrow> gate_run adminSettings rest g')"

fun enters_code :: "gate_event \<Rightarrow> bool" where
  "enters_code (ChangeCode v) = True"
| "enters_code ToggleShowPassword = False"
| "enters_code Submit = False"
| "enters_code ContinueAsGuest = False"

section \<open>Example inputs\<close>

definition example_generations :: "generation list" where
  "example_generations =
     map (\<lambda>n. \<lparr>g_input = ''A vacation planner'', g_tone = ''Friendly'',
                g_audience = ''Busy parents'', g_uuid = string_of_nat n, g_now = int n,
                g_chunks = [\<lparr>chunk_text = Some ''You are ''\<rparr>, \<lparr>chunk_text = None\<rparr>,
                            \<lparr>chunk_text = Some (string_of_nat n)\<rparr>]\<rparr>) [0..<52]"

definition example_history :: "HistoryItem list" where
  "example_history =
     map (\<lambda>i. \<lparr>h_id = i, h_prompt = ''You are a planner.'', h_timestamp = 1000,
                h_userInput = ''A vacation planner'', h_tone = ''Friendly'',
                h_targetAudience = ''Busy parents''\<rparr>) [''a'', ''b'', ''c'']"

definition duplicate_history :: "HistoryItem list" where
  "duplicate_history =
     map (\<lambda>i. \<lparr>h_id = i, h_prompt = ''You are a planner.'', h_timestamp = 1000,
                h_userInput = ''A vacation planner'', h_tone = ''Friendly'',
                h_targetAudience = ''Busy parents''\<rparr>) [''a'', ''b'', ''b'', ''c'']"

definition example_settings :: AdminSettings where
  "example_settings = \<lparr>accessSecret = ''CLIENT'', isGateEnabled = True\<rparr>"

definition example_date :: local_date where
  "example_date = \<lparr>getDate = 3, getMonth = 10, getFullYear = 2026\<rparr>"

declare string_of_nat.simps [simp del]

section \<open>The accumulation loops\<close>

text \<open>
  Both loops are folds over the chunks. The generation loop returns the accumulator
  extended by the fragments and appends the same text to the prompt cell; the chat loop
  writes the accumulator into the last message of the thread.
\<close>

lemma fragments_Nil: "fragments [] = []"
  by (simp add: fragments_def)

lemma fragments_Cons: "fragments (c # cs) = fragment c @ fragments cs"
  by (simp add: fragments_def)

lemma generate_loop_eq:
  "generate_loop cs acc s =
     (acc @ fragments cs, s\<lparr>generatedPrompt := generatedPrompt s @ fragments cs\<rparr>)"
proof (induction cs arbitrary: acc s)
  case Nil
  show ?case by (simp add: fragments_Nil)
next
  case (Cons c cs)
  show ?case
  proof (cases "chunk_text c")
    case None
    then show ?thesis by (simp add: Cons.IH fragments_Cons fragment_def)
  next
    case (Some t)
    then show ?thesis by (simp add: Cons.IH fragments_Cons fragment_def)
  qed
qed

lemma set_last_content_snoc:
  "set_last_content c (xs @ [m]) = Some (xs @ [m\<lparr>content := c\<rparr>])"
  by (simp add: set_last_content_def)

lemma refine_loop_eq:
  "chatHistory s = xs @ [m] \<Longrightarrow>
   refine_loop cs acc s =
     Some (acc @ fragments cs,
           s\<lparr>chatHistory := xs @ [m\<lparr>content :=
                (if fragments cs = [] then content m else acc @ fragments cs)\<rparr>]\<rparr>)"
proof (induction cs arbitrary: acc s m)
  case Nil
  then show ?case by (simp add: fragments_Nil)
next
  case (Cons c cs)
  show ?case
  proof (cases "chunk_text c")
    case None
    then show ?thesis using Cons.prems
      by (simp add: Cons.IH [OF Cons.prems] fragments_Cons fragment_def)
  next
    case (Some t)
    show ?thesis
    proof (cases "t = []")
      case True
      then show ?thesis using Some Cons.prems
        by (simp add: Cons.IH [OF Cons.prems] fragments_Cons fragment_def)
    next
      case False
      let ?s' = "s\<lparr>chatHistory := xs @ [m\<lparr>content := acc @ t\<rparr>]\<rparr>"
      have h: "chatHistory ?s' = xs @ [m\<lparr>content := acc @ t\<rparr>]" by simp
      show ?thesis using Some False Cons.prems
        by (simp add: set_last_content_snoc Cons.IH [OF h] fragments_Cons fragment_def)
    qed
  qed
qed

section \<open>The handlers in closed form\<close>

text \<open>
  With a client present, each handler is one record update of the state on entry, by the
  way the stream went: to its end, failing after some chunks, or rejected at the request.
\<close>

lemma handleGeneratePrompt_success:
  "handleGeneratePrompt (Some ai) input genTone genAudience uuid now (Streamed chunks None) s =
     (generate_enter s)
       \<lparr>backendCalls := backendCalls s @
          [GenerateContentStream GENERATE_SYSTEM_INSTRUCTION (fullPrompt input genTone genAudience)],
        generatedPrompt := fragments chunks,
        originalPromptForChat := fragments chunks,
        history :=
          \<lparr>h_id = uuid, h_prompt = fragments chunks, h_timestamp = now, h_userInput = input,
           h_tone = genTone, h_targetAudience = genAudience\<rparr> # take 49 (history s),
        isLoading := False\<rparr>"
  by (simp add: handleGeneratePrompt_def generate_loop_eq generate_enter_def resetChatStates_def)

lemma handleGeneratePrompt_failure:
  "handleGeneratePrompt (Some ai) input genTone genAudience uuid now (Streamed chunks (Some err)) s =
     (generate_enter s)
       \<lparr>backendCalls := backendCalls s @
          [GenerateContentStream GENERATE_SYSTEM_INSTRUCTION (fullPrompt input genTone genAudience)],
        generatedPrompt := fragments chunks,
        error := Some (errorMessage err),
        isLoading := False\<rparr>"
  by (simp add: handleGeneratePrompt_def generate_loop_eq generate_enter_def resetChatStates_def)

lemma handleGeneratePrompt_rejected:
  "handleGeneratePrompt (Some ai) input genTone genAudience uuid now (Rejected err) s =
     (generate_enter s)
       \<lparr>backendCalls := backendCalls s @
          [GenerateContentStream GENERATE_SYSTEM_INSTRUCTION (fullPrompt input genTone genAudience)],
        error := Some (errorMessage err),
        isLoading := False\<rparr>"
  by (simp add: handleGeneratePrompt_def generate_enter_def resetChatStates_def)

lemma handleSendMessage_loop:
  "refine_loop chunks []
     (s\<lparr>isChatLoading := True,
        chatHistory := chatHistory s @ [\<lparr>role = user, content = message\<rparr>, \<lparr>role = model, content = []\<rparr>],
        backendCalls := calls\<rparr>) =
   Some (fragments chunks,
     s\<lparr>isChatLoading := True,
       chatHistory := chatHistory s @ [\<lparr>role = user, content = message\<rparr>, \<lparr>role = model, content = fragments chunks\<rparr>],
       backendCalls := calls\<rparr>)"
proof -
  let ?s2 = "s\<lparr>isChatLoading := True,
        chatHistory := chatHistory s @ [\<lparr>role = user, content = message\<rparr>, \<lparr>role = model, content = []\<rparr>],
        backendCalls := calls\<rparr>"
  have h: "chatHistory ?s2 = (chatHistory s @ [\<lparr>role = user, content = message\<rparr>]) @ [\<lparr>role = model, content = []\<rparr>]"
    by simp
  show ?thesis
    by (simp add: refine_loop_eq [OF h])
qed

lemma refine_catch_placeholder:
  "refine_catch err
     (s\<lparr>isChatLoading := True,
        chatHistory := chatHistory s @ [\<lparr>role = user, content = message\<rparr>, \<lparr>role = model, content = c\<rparr>],
        backendCalls := calls\<rparr>) =
   Some (s\<lparr>isChatLoading := False,
     chatHistory := chatHistory s @ [\<lparr>role = user, content = message\<rparr>,
        \<lparr>role = model, content = ''Error: '' @ errorMessage err\<rparr>],
     backendCalls := calls\<rparr>)"
proof -
  have "set_last_content e ((chatHistory s @ [\<lparr>role = user, content = message\<rparr>]) @ [\<lparr>role = model, content = c\<rparr>])
        = Some ((chatHistory s @ [\<lparr>role = user, content = message\<rparr>]) @ [\<lparr>role = model, content = c\<rparr>\<lparr>content := e\<rparr>])" for e
    by (rule set_last_content_snoc)
  then show ?thesis
    by (simp add: refine_catch_def)
qed

lemma handleSendMessage_success:
  "handleSendMessage (Some ai) message (Streamed chunks None) s =
     Some (s\<lparr>isChatLoading := False,
       chatHistory := chatHistory s @ [\<lparr>role = user, content = message\<rparr>, \<lparr>role = model, content = fragments chunks\<rparr>],
       backendCalls := backendCalls s @
         [ChatsCreate \<lparr>chat_systemInstruction = REFINE_SYSTEM_INSTRUCTION,
                       chat_history = [originalPromptForChat s]\<rparr>,
          SendMessageStream message],
       generatedPrompt := fragments chunks,
       originalPromptForChat := fragments chunks\<rparr>)"
  by (simp add: handleSendMessage_def handleSendMessage_loop)

lemma handleSendMessage_failure:
  "handleSendMessage (Some ai) message (Streamed chunks (Some err)) s =
     Some (s\<lparr>isChatLoading := False,
       chatHistory := chatHistory s @ [\<lparr>role = user, content = message\<rparr>,
          \<lparr>role = model, content = ''Error: '' @ errorMessage err\<rparr>],
       backendCalls := backendCalls s @
         [ChatsCreate \<lparr>chat_systemInstruction = REFINE_SYSTEM_INSTRUCTION,
                       chat_history = [originalPromptForChat s]\<rparr>,
          SendMessageStream message]\<rparr>)"
  by (simp add: handleSendMessage_def handleSendMessage_loop refine_catch_placeholder)

lemma handleSendMessage_rejected:
  "handleSendMessage (Some ai) message (Rejected err) s =
     Some (s\<lparr>isChatLoading := False,
       chatHistory := chatHistory s @ [\<lparr>role = user, content = message\<rparr>,
          \<lparr>role = model, content = ''Error: '' @ errorMessage err\<rparr>],
       backendCalls := backendCalls s @
         [ChatsCreate \<lparr>chat_systemInstruction = REFINE_SYSTEM_INSTRUCTION,
                       chat_history = [originalPromptForChat s]\<rparr>,
          SendMessageStream message]\<rparr>)"
  by (simp add: handleSendMessage_def refine_catch_placeholder)

section \<open>Streaming accumulation\<close>

text \<open>
  C1. For every finite sequence of chunks, the string the generation loop returns is the
  ordered concatenation of the fragments, whatever the state. After a generation whose
  stream ends, the prompt cell (the last value published) and the prompt anchor (set from
  the returned string) both hold that concatenation. After a refine-chat turn whose
  stream ends, the handler returns a state in which the content of the last message of
  the thread, the prompt cell and the prompt anchor hold it. The concatenation of no
  chunks is the empty string.
\<close>

theorem streaming_accumulation:
  "fst (generate_loop chunks '''' s) = fragments chunks \<and>
   generatedPrompt
     (handleGeneratePrompt (Some ai) input genTone genAudience uuid now (Streamed chunks None) s) =
     fragments chunks \<and>
   originalPromptForChat
     (handleGeneratePrompt (Some ai) input genTone genAudience uuid now (Streamed chunks None) s) =
     fragments chunks \<and>
   (\<exists>s'. handleSendMessage (Some ai) message (Streamed chunks None) s = Some s' \<and>
         content (last (chatHistory s')) = fragments chunks \<and>
         generatedPrompt s' = fragments chunks \<and>
         originalPromptForChat s' = fragments chunks) \<and>
   fragments [] = ''''"
  by (simp add: generate_loop_eq handleGeneratePrompt_success handleSendMessage_success
      fragments_Nil)

section \<open>A new generation resets the chat state\<close>

text \<open>
  C3. Whatever the refine thread, the test thread and the test conversation handle were,
  in the state in which a generation requests its stream both threads are empty, the
  handle is null and the loading flag is set, before any chunk is consumed; they stay so
  after any number of chunks and in the state the handler leaves, however the stream
  goes.
\<close>

theorem generation_resets_chat:
  "chatHistory (generate_enter s) = [] \<and>
   testChatHistory (generate_enter s) = [] \<and>
   testChatRef (generate_enter s) = None \<and>
   isLoading (generate_enter s) \<and>
   chatHistory (snd (generate_loop chunks '''' ((generate_enter s)\<lparr>backendCalls := calls\<rparr>))) = [] \<and>
   testChatHistory (snd (generate_loop chunks '''' ((generate_enter s)\<lparr>backendCalls := calls\<rparr>))) = [] \<and>
   testChatRef (snd (generate_loop chunks '''' ((generate_enter s)\<lparr>backendCalls := calls\<rparr>))) = None \<and>
   chatHistory
     (handleGeneratePrompt (Some ai) input genTone genAudience uuid now outcome s) = [] \<and>
   testChatHistory
     (handleGeneratePrompt (Some ai) input genTone genAudience uuid now outcome s) = [] \<and>
   testChatRef
     (handleGeneratePrompt (Some ai) input genTone genAudience uuid now outcome s) = None"
proof -
  have enter: "chatHistory (generate_enter s) = [] \<and> testChatHistory (generate_enter s) = [] \<and>
      testChatRef (generate_enter s) = None \<and> isLoading (generate_enter s)"
    by (simp add: generate_enter_def resetChatStates_def)
  have loop: "chatHistory (snd (generate_loop chunks '''' ((generate_enter s)\<lparr>backendCalls := calls\<rparr>))) = [] \<and>
      testChatHistory (snd (generate_loop chunks '''' ((generate_enter s)\<lparr>backendCalls := calls\<rparr>))) = [] \<and>
      testChatRef (snd (generate_loop chunks '''' ((generate_enter s)\<lparr>backendCalls := calls\<rparr>))) = None"
    by (simp add: generate_loop_eq enter)
  have final: "chatHistory
       (handleGeneratePrompt (Some ai) input genTone genAudience uuid now outcome s) = [] \<and>
     testChatHistory
       (handleGeneratePrompt (Some ai) input genTone genAudience uuid now outcome s) = [] \<and>
     testChatRef
       (handleGeneratePrompt (Some ai) input genTone genAudience uuid now outcome s) = None"
  proof (cases outcome)
    case (Rejected err)
    then show ?thesis by (simp add: handleGeneratePrompt_rejected enter)
  next
    case (Streamed cs failure)
    then show ?thesis
      by (cases failure)
        (simp_all add: handleGeneratePrompt_success handleGeneratePrompt_failure enter)
  qed
  from enter loop final show ?thesis by simp
qed

section \<open>A failed generation\<close>

text \<open>
  C5, as stated, does not hold: the generated prompt is not left unchanged by a failed
  call. With the prompt \<open>old\<close> on entry and a stream that yields \<open>par\<close> and then
  fails, the prompt afterwards is not the prompt on entry.
\<close>

theorem generation_failure_keeps_prompt_counterexample:
  "generatedPrompt
     (handleGeneratePrompt (Some (GoogleGenAI ''key'')) ''A vacation planner'' ''Friendly''
        ''Busy parents'' ''id-1'' 1000
        (Streamed [\<lparr>chunk_text = Some ''par''\<rparr>] (Some (ErrorObject ''boom'')))
        ((initial_session [])\<lparr>generatedPrompt := ''old''\<rparr>))
   \<noteq> generatedPrompt ((initial_session [])\<lparr>generatedPrompt := ''old''\<rparr>)"
  by (simp add: handleGeneratePrompt_failure fragments_def fragment_def)

text \<open>
  C5, amended. For every generation call whose request is rejected or whose stream fails
  after some chunks, the loading flag is cleared, the error is the failure's message, the
  history and the refine thread's prompt anchor are unchanged, and the generated prompt,
  cleared on entry, holds the concatenation of the fragments received before the
  failure: the empty string when the request was rejected.
\<close>

theorem generation_failure_state:
  "isLoading (handleGeneratePrompt (Some ai) input genTone genAudience uuid now (Rejected err) s)
     = False \<and>
   error (handleGeneratePrompt (Some ai) input genTone genAudience uuid now (Rejected err) s)
     = Some (errorMessage err) \<and>
   history (handleGeneratePrompt (Some ai) input genTone genAudience uuid now (Rejected err) s)
     = history s \<and>
   originalPromptForChat
      (handleGeneratePrompt (Some ai) input genTone genAudience uuid now (Rejected err) s)
     = originalPromptForChat s \<and>
   generatedPrompt
      (handleGeneratePrompt (Some ai) input genTone genAudience uuid now (Rejected err) s)
     = '''' \<and>
   isLoading (handleGeneratePrompt (Some ai) input genTone genAudience uuid now
      (Streamed chunks (Some err)) s) = False \<and>
   error (handleGeneratePrompt (Some ai) input genTone genAudience uuid now
      (Streamed chunks (Some err)) s) = Some (errorMessage err) \<and>
   history (handleGeneratePrompt (Some ai) input genTone genAudience uuid now
      (Streamed chunks (Some err)) s) = history s \<and>
   originalPromptForChat (handleGeneratePrompt (Some ai) input genTone genAudience uuid now
      (Streamed chunks (Some err)) s) = originalPromptForChat s \<and>
   generatedPrompt (handleGeneratePrompt (Some ai) input genTone genAudience uuid now
      (Streamed chunks (Some err)) s) = fragments chunks"
  by (simp add: handleGeneratePrompt_rejected handleGeneratePrompt_failure generate_enter_def
      resetChatStates_def)

section \<open>A failed refine-chat turn\<close>

text \<open>
  C6. For every refine-chat turn whose request is rejected or whose stream fails after
  some chunks, the handler returns a state whose thread is the thread on entry followed
  by the user's message and a model message whose content is the error marker: for a
  thrown \<^verbatim>\<open>Error\<close> with message \<open>msg\<close> the text \<open>Error: \<close> followed by
  \<open>msg\<close>, and for any other thrown value \<open>Error: An unknown error occurred.\<close>
  Whatever the stream delivered before failing is overwritten by the marker. The
  generated prompt and the prompt anchor are unchanged, and the chat loading flag is
  cleared.
\<close>

theorem refine_failure_marks_placeholder:
  "(\<exists>s'. handleSendMessage (Some ai) message (Rejected (ErrorObject msg)) s = Some s' \<and>
      chatHistory s' = chatHistory s @ [\<lparr>role = user, content = message\<rparr>,
         \<lparr>role = model, content = ''Error: '' @ msg\<rparr>] \<and>
      generatedPrompt s' = generatedPrompt s \<and>
      originalPromptForChat s' = originalPromptForChat s \<and>
      isChatLoading s' = False) \<and>
   (\<exists>s'. handleSendMessage (Some ai) message (Rejected OtherValue) s = Some s' \<and>
      chatHistory s' = chatHistory s @ [\<lparr>role = user, content = message\<rparr>,
         \<lparr>role = model, content = ''Error: An unknown error occurred.''\<rparr>] \<and>
      generatedPrompt s' = generatedPrompt s \<and>
      originalPromptForChat s' = originalPromptForChat s \<and>
      isChatLoading s' = False) \<and>
   (\<exists>s'. handleSendMessage (Some ai) message (Streamed chunks (Some (ErrorObject msg))) s = Some s' \<and>
      chatHistory s' = chatHistory s @ [\<lparr>role = user, content = message\<rparr>,
         \<lparr>role = model, content = ''Error: '' @ msg\<rparr>] \<and>
      generatedPrompt s' = generatedPrompt s \<and>
      originalPromptForChat s' = originalPromptForChat s \<and>
      isChatLoading s' = False) \<and>
   (\<exists>s'. handleSendMessage (Some ai) message (Streamed chunks (Some OtherValue)) s = Some s' \<and>
      chatHistory s' = chatHistory s @ [\<lparr>role = user, content = message\<rparr>,
         \<lparr>role = model, content = ''Error: An unknown error occurred.''\<rparr>] \<and>
      generatedPrompt s' = generatedPrompt s \<and>
      originalPromptForChat s' = originalPromptForChat s \<and>
      isChatLoading s' = False)"
  by (simp add: handleSendMessage_rejected handleSendMessage_failure)

section \<open>Generation without a backend client\<close>

text \<open>
  C7. Without a client, \<^verbatim>\<open>handleGeneratePrompt\<close> changes the error cell and nothing
  else, whatever its arguments: the loading flag, the log of backend calls, the history,
  both chat threads, the test conversation handle and the generated prompt are what they
  were. There is no client when the API key is undefined or empty.
\<close>

theorem generate_without_client:
  "handleGeneratePrompt None input genTone genAudience uuid now outcome s =
     s\<lparr>error := Some ''AI client not initialized. Please configure your API key.''\<rparr> \<and>
   isLoading (handleGeneratePrompt None input genTone genAudience uuid now outcome s) =
     isLoading s \<and>
   backendCalls (handleGeneratePrompt None input genTone genAudience uuid now outcome s) =
     backendCalls s \<and>
   history (handleGeneratePrompt None input genTone genAudience uuid now outcome s) =
     history s \<and>
   chatHistory (handleGeneratePrompt None input genTone genAudience uuid now outcome s) =
     chatHistory s \<and>
   testChatHistory (handleGeneratePrompt None input genTone genAudience uuid now outcome s) =
     testChatHistory s \<and>
   testChatRef (handleGeneratePrompt None input genTone genAudience uuid now outcome s) =
     testChatRef s \<and>
   generatedPrompt (handleGeneratePrompt None input genTone genAudience uuid now outcome s) =
     generatedPrompt s \<and>
   ai_client None ctor_throws = None \<and>
   ai_client (Some '''') ctor_throws = None"
  by (simp add: handleGeneratePrompt_def ai_client_def)

section \<open>The history and its cap\<close>

lemma history_after_success:
  "history (handleGeneratePrompt (Some ai) (g_input g) (g_tone g) (g_audience g) (g_uuid g)
      (g_now g) (Streamed (g_chunks g) None) s) = item_of g # take 49 (history s)"
  by (simp add: handleGeneratePrompt_success item_of_def)

lemma generate_all_snoc:
  "generate_all ai (gs @ [g]) s =
     handleGeneratePrompt (Some ai) (g_input g) (g_tone g) (g_audience g) (g_uuid g) (g_now g)
       (Streamed (g_chunks g) None) (generate_all ai gs s)"
  by (induction gs arbitrary: s) simp_all

lemma history_generate_all:
  "gs \<noteq> [] \<Longrightarrow>
   history (generate_all ai gs s) = take 50 (rev (map item_of gs) @ history s)"
proof (induction gs rule: rev_induct)
  case Nil
  then show ?case by simp
next
  case (snoc g gs)
  show ?case
  proof (cases "gs = []")
    case True
    then show ?thesis
      by (simp add: history_after_success)
  next
    case False
    have "history (generate_all ai (gs @ [g]) s) =
            item_of g # take 49 (history (generate_all ai gs s))"
      by (simp only: generate_all_snoc history_after_success)
    also have "\<dots> = item_of g # take 49 (take 50 (rev (map item_of gs) @ history s))"
      by (simp only: snoc.IH [OF False])
    also have "\<dots> = take 50 (rev (map item_of (gs @ [g])) @ history s)"
      by (simp add: min_def)
    finally show ?thesis .
  qed
qed

text \<open>
  C2. For every prior history, a completed generation leaves its item at the front,
  followed by the first 49 prior items, so the length is at most 50. After more than 50
  completed generations in a row the history is exactly the items of the last 50 of
  them, newest first, whatever the prior history was.
\<close>

theorem history_capped_newest_first:
  "history (handleGeneratePrompt (Some ai) input genTone genAudience uuid now
      (Streamed chunks None) s) =
     \<lparr>h_id = uuid, h_prompt = fragments chunks, h_timestamp = now, h_userInput = input,
      h_tone = genTone, h_targetAudience = genAudience\<rparr> # take 49 (history s) \<and>
   length (history (handleGeneratePrompt (Some ai) input genTone genAudience uuid now
      (Streamed chunks None) s)) \<le> 50 \<and>
   (50 < length gs \<longrightarrow>
      history (generate_all ai gs s) = rev (map item_of (drop (length gs - 50) gs)) \<and>
      length (history (generate_all ai gs s)) = 50)"
proof -
  have one: "history (handleGeneratePrompt (Some ai) input genTone genAudience uuid now
      (Streamed chunks None) s) =
     \<lparr>h_id = uuid, h_prompt = fragments chunks, h_timestamp = now, h_userInput = input,
      h_tone = genTone, h_targetAudience = genAudience\<rparr> # take 49 (history s)"
    by (simp add: handleGeneratePrompt_success)
  have len: "length (history (handleGeneratePrompt (Some ai) input genTone genAudience uuid now
      (Streamed chunks None) s)) \<le> 50"
    by (simp add: one)
  have many: "history (generate_all ai gs s) = rev (map item_of (drop (length gs - 50) gs)) \<and>
      length (history (generate_all ai gs s)) = 50" if n: "50 < length gs"
  proof -
    from n have ne: "gs \<noteq> []" by auto
    have "take 50 (rev (map item_of gs) @ history s) = take 50 (rev (map item_of gs))"
      using n by simp
    also have "\<dots> = rev (map item_of (drop (length gs - 50) gs))"
      by (simp add: rev_map take_map take_rev)
    finally have "history (generate_all ai gs s) = rev (map item_of (drop (length gs - 50) gs))"
      by (simp only: history_generate_all [OF ne])
    then show ?thesis using n by simp
  qed
  from one len many show ?thesis by blast
qed

text \<open>Fifty-two generations: the history holds the items of all but the first two.\<close>

theorem history_capped_newest_first_witness:
  "50 < length example_generations \<and>
   history (generate_all (GoogleGenAI ''key'') example_generations (initial_session [])) =
     rev (map item_of (drop 2 example_generations)) \<and>
   length (history (generate_all (GoogleGenAI ''key'') example_generations (initial_session [])))
     = 50"
proof -
  have n: "length example_generations = 52"
    by (simp add: example_generations_def)
  then have h: "50 < length example_generations" by simp
  from history_capped_newest_first
    [of "GoogleGenAI ''key''" "''x''" "''y''" "''z''" "''u''" 0 "[]" "initial_session []"
       example_generations]
  have "history (generate_all (GoogleGenAI ''key'') example_generations (initial_session [])) =
      rev (map item_of (drop (length example_generations - 50) example_generations)) \<and>
     length (history (generate_all (GoogleGenAI ''key'') example_generations (initial_session [])))
      = 50"
    using h by blast
  then show ?thesis using h by (simp add: n)
qed

section \<open>Deleting a history item\<close>

lemma filter_distinct_remove1:
  "distinct (map f xs) \<Longrightarrow> x \<in> set xs \<Longrightarrow> filter (\<lambda>y. f y \<noteq> f x) xs = remove1 x xs"
proof (induction xs)
  case Nil
  then show ?case by simp
next
  case (Cons a xs)
  show ?case
  proof (cases "a = x")
    case True
    with Cons.prems have "f x \<notin> f ` set xs" by simp
    then have "filter (\<lambda>y. f y \<noteq> f x) xs = xs"
      by (intro filter_True) (auto simp add: image_iff)
    with True show ?thesis by simp
  next
    case False
    with Cons.prems have xin: "x \<in> set xs" by simp
    with Cons.prems have "f a \<noteq> f x" by force
    with Cons.IH Cons.prems xin False show ?thesis by simp
  qed
qed

text \<open>
  C8, as stated, does not hold for every history: where two entries carry the id, both
  are removed. From a history with the ids \<open>a\<close>, \<open>b\<close>, \<open>b\<close>, \<open>c\<close>, deleting
  \<open>b\<close> leaves the first and the last entry, so the length drops by two, not by one.
\<close>

theorem delete_history_item_counterexample:
  "history (handleClearHistoryItem ''b'' (initial_session duplicate_history)) =
     [duplicate_history ! 0, duplicate_history ! 3] \<and>
   length (history (handleClearHistoryItem ''b'' (initial_session duplicate_history))) + 1 \<noteq>
     length (history (initial_session duplicate_history))"
  by (simp add: handleClearHistoryItem_def initial_session_def duplicate_history_def)

text \<open>
  C8, amended. For every history and every id, deleting by id removes every entry whose
  id is the given one and nothing else: the history becomes its entries with another id,
  in their order, the length drops by the number of entries with the id, and no other
  cell changes. When no entry has the id, the state is unchanged. When the ids of the
  history are unique and an entry has the id, exactly that entry is removed and the
  length drops by one.
\<close>

theorem delete_history_item:
  "history (handleClearHistoryItem i s) = filter (\<lambda>y. h_id y \<noteq> i) (history s) \<and>
   filter (\<lambda>y. h_id y \<noteq> i) (history (handleClearHistoryItem i s)) =
     filter (\<lambda>y. h_id y \<noteq> i) (history s) \<and>
   i \<notin> h_id ` set (history (handleClearHistoryItem i s)) \<and>
   length (history (handleClearHistoryItem i s)) +
     length (filter (\<lambda>y. h_id y = i) (history s)) = length (history s) \<and>
   handleClearHistoryItem i s = s\<lparr>history := history (handleClearHistoryItem i s)\<rparr> \<and>
   (i \<notin> h_id ` set (history s) \<longrightarrow> handleClearHistoryItem i s = s) \<and>
   (distinct (map h_id (history s)) \<and> x \<in> set (history s) \<and> h_id x = i \<longrightarrow>
      history (handleClearHistoryItem i s) = remove1 x (history s) \<and>
      length (history (handleClearHistoryItem i s)) + 1 = length (history s))"
proof -
  have f: "history (handleClearHistoryItem i s) = filter (\<lambda>y. h_id y \<noteq> i) (history s)"
    by (simp add: handleClearHistoryItem_def)
  have a: "filter (\<lambda>y. h_id y \<noteq> i) (history (handleClearHistoryItem i s)) =
     filter (\<lambda>y. h_id y \<noteq> i) (history s)"
    by (simp add: handleClearHistoryItem_def)
  have b: "i \<notin> h_id ` set (history (handleClearHistoryItem i s))"
    by (auto simp add: handleClearHistoryItem_def)
  have n: "length (history (handleClearHistoryItem i s)) +
     length (filter (\<lambda>y. h_id y = i) (history s)) = length (history s)"
    using sum_length_filter_compl [of "\<lambda>y. h_id y = i" "history s"]
    by (simp add: f)
  have c: "handleClearHistoryItem i s = s\<lparr>history := history (handleClearHistoryItem i s)\<rparr>"
    by (simp add: handleClearHistoryItem_def)
  have d: "handleClearHistoryItem i s = s" if "i \<notin> h_id ` set (history s)"
  proof -
    from that have "filter (\<lambda>item. h_id item \<noteq> i) (history s) = history s"
      by (intro filter_True) auto
    then show ?thesis by (simp add: handleClearHistoryItem_def)
  qed
  have e: "history (handleClearHistoryItem i s) = remove1 x (history s) \<and>
      length (history (handleClearHistoryItem i s)) + 1 = length (history s)"
    if "distinct (map h_id (history s))" "x \<in> set (history s)" "h_id x = i"
  proof -
    from that have "history (handleClearHistoryItem i s) = remove1 x (history s)"
      using filter_distinct_remove1 [of h_id "history s" x]
      by (simp add: handleClearHistoryItem_def)
    moreover from that(2) have "length (remove1 x (history s)) + 1 = length (history s)"
      using length_pos_if_in_set [of x "history s"] by (simp add: length_remove1)
    ultimately show ?thesis by simp
  qed
  from f a b n c d e show ?thesis by blast
qed

text \<open>A history of three items: an absent id, and the id of the middle item.\<close>

theorem delete_history_item_witness:
  "handleClearHistoryItem ''z'' (initial_session example_history) =
     initial_session example_history \<and>
   distinct (map h_id example_history) \<and>
   history (handleClearHistoryItem ''b'' (initial_session example_history)) =
     [example_history ! 0, example_history ! 2] \<and>
   length (history (handleClearHistoryItem ''b'' (initial_session example_history))) + 1 =
     length (history (initial_session example_history))"
proof -
  let ?s = "initial_session example_history"
  let ?x = "example_history ! 1"
  have h: "history ?s = example_history"
    by (simp add: initial_session_def)
  have h1: "''z'' \<notin> h_id ` set (history ?s)"
    unfolding h by (simp add: example_history_def)
  have h2: "distinct (map h_id (history ?s)) \<and> ?x \<in> set (history ?s) \<and> h_id ?x = ''b''"
    unfolding h by (simp add: example_history_def)
  have rm: "remove1 ?x (history ?s) = [example_history ! 0, example_history ! 2]"
    unfolding h by (simp add: example_history_def)
  from delete_history_item [of "''z''" ?s ?x] h1
  have r1: "handleClearHistoryItem ''z'' ?s = ?s" by blast
  from delete_history_item [of "''b''" ?s ?x] h2
  have r2: "history (handleClearHistoryItem ''b'' ?s) = remove1 ?x (history ?s) \<and>
      length (history (handleClearHistoryItem ''b'' ?s)) + 1 = length (history ?s)" by blast
  from h2 have d: "distinct (map h_id example_history)"
    unfolding h by blast
  from r2 have r2a: "history (handleClearHistoryItem ''b'' ?s) =
      [example_history ! 0, example_history ! 2]"
    unfolding rm by blast
  from r2 have r2b: "length (history (handleClearHistoryItem ''b'' ?s)) + 1 = length (history ?s)"
    by blast
  from r1 d r2a r2b show ?thesis by blast
qed

section \<open>Clearing the test thread\<close>

text \<open>
  C9. In every state, clearing the test thread empties the test thread and sets the test
  conversation handle to null; the refine thread, the generated prompt, the refine
  thread's prompt anchor and the history are what they were. Every other cell is
  unchanged as well.
\<close>

theorem clear_test_thread_frame:
  "testChatHistory (handleClearTestChat s) = [] \<and>
   testChatRef (handleClearTestChat s) = None \<and>
   chatHistory (handleClearTestChat s) = chatHistory s \<and>
   generatedPrompt (handleClearTestChat s) = generatedPrompt s \<and>
   originalPromptForChat (handleClearTestChat s) = originalPromptForChat s \<and>
   history (handleClearTestChat s) = history s \<and>
   handleClearTestChat s = s\<lparr>testChatHistory := [], testChatRef := None\<rparr>"
  by (simp add: handleClearTestChat_def)

section \<open>The access codes\<close>

text \<open>
  A client code ends with the last digit of the year, so it is never empty and never the
  admin code, whatever the secret is.
\<close>

lemma digit_char_not_e: "digit_char n \<noteq> CHR ''e''"
proof -
  have "digit_char n \<in> set ''0123456789''"
    unfolding digit_char_def by (rule nth_mem) simp
  then show ?thesis by auto
qed

lemma string_of_nat_last:
  "string_of_nat n \<noteq> [] \<and> last (string_of_nat n) = digit_char (n mod 10)"
  by (subst (1 2) string_of_nat.simps) simp

lemma string_of_int_last:
  "string_of_int i \<noteq> [] \<and> last (string_of_int i) \<noteq> CHR ''e''"
  using string_of_nat_last [of "nat i"] string_of_nat_last [of "nat (- i)"]
  by (simp add: string_of_int_def digit_char_not_e)

lemma getClientCode_last:
  "getClientCode adminSettings date \<noteq> [] \<and>
   last (getClientCode adminSettings date) \<noteq> CHR ''e''"
  using string_of_int_last [of "getFullYear date"]
  by (simp add: getClientCode_def Let_def)

lemma getClientCode_not_admin: "getClientCode adminSettings date \<noteq> ADMIN_CODE"
proof
  assume "getClientCode adminSettings date = ADMIN_CODE"
  then have "last (getClientCode adminSettings date) = last ADMIN_CODE" by simp
  moreover have "last ADMIN_CODE = CHR ''e''" by (simp add: ADMIN_CODE_def)
  ultimately show False using getClientCode_last [of adminSettings date] by simp
qed

lemma ADMIN_CODE_not_empty: "ADMIN_CODE \<noteq> []"
  by (simp add: ADMIN_CODE_def)

text \<open>
  C4. For every content of the code field: when it is the secret, a hyphen, the day
  padded to two digits with zeros, a hyphen, the month padded likewise, a hyphen and the
  year, submitting sets the access level to client; when it is \<open>admin-unlock-righteye\<close>,
  submitting sets it to admin; when it is neither, at access level none, the access
  level stays none and the error message \<open>Invalid access code.\<close> is set.
\<close>

theorem access_gate_codes:
  "(code g = accessSecret adminSettings @ ''-'' @
              padStart 2 ''0'' (string_of_nat (getDate date)) @ ''-'' @
              padStart 2 ''0'' (string_of_nat (getMonth date + 1)) @ ''-'' @
              string_of_int (getFullYear date) \<longrightarrow>
      accessLevel (handleSubmit adminSettings date g) = client) \<and>
   (code g = ''admin-unlock-righteye'' \<longrightarrow>
      accessLevel (handleSubmit adminSettings date g) = admin) \<and>
   (code g \<noteq> ''admin-unlock-righteye'' \<and> code g \<noteq> getClientCode adminSettings date \<and>
    accessLevel g = none \<longrightarrow>
      accessLevel (handleSubmit adminSettings date g) = none \<and>
      gate_error (handleSubmit adminSettings date g) = ''Invalid access code.'' \<and>
      gate_step adminSettings date Submit g =
        Some (g\<lparr>gate_error := ''Invalid access code.''\<rparr>))"
proof -
  have fmt: "getClientCode adminSettings date =
      accessSecret adminSettings @ ''-'' @
              padStart 2 ''0'' (string_of_nat (getDate date)) @ ''-'' @
              padStart 2 ''0'' (string_of_nat (getMonth date + 1)) @ ''-'' @
              string_of_int (getFullYear date)"
    by (simp add: getClientCode_def Let_def)
  have adm: "ADMIN_CODE = ''admin-unlock-righteye''"
    by (simp add: ADMIN_CODE_def)
  have a: "accessLevel (handleSubmit adminSettings date g) = client"
    if "code g = getClientCode adminSettings date"
    using that getClientCode_not_admin [of adminSettings date]
    by (simp add: handleSubmit_def)
  have b: "accessLevel (handleSubmit adminSettings date g) = admin" if "code g = ADMIN_CODE"
    using that by (simp add: handleSubmit_def)
  have c: "accessLevel (handleSubmit adminSettings date g) = none \<and>
      gate_error (handleSubmit adminSettings date g) = ''Invalid access code.'' \<and>
      gate_step adminSettings date Submit g =
        Some (g\<lparr>gate_error := ''Invalid access code.''\<rparr>)"
    if "code g \<noteq> ADMIN_CODE" "code g \<noteq> getClientCode adminSettings date"
       "accessLevel g = none"
    using that by (simp add: handleSubmit_def gate_step_def)
  from a b c show ?thesis
    unfolding fmt [symmetric] adm [symmetric] by blast
qed

lemma example_client_code: "getClientCode example_settings example_date = ''CLIENT-03-11-2026''"
  by code_simp

text \<open>The third of November 2026 with the secret \<open>CLIENT\<close>.\<close>

theorem access_gate_codes_witness:
  "accessLevel (handleSubmit example_settings example_date
      (initial_gate\<lparr>code := ''CLIENT-03-11-2026''\<rparr>)) = client \<and>
   accessLevel (handleSubmit example_settings example_date
      (initial_gate\<lparr>code := ''admin-unlock-righteye''\<rparr>)) = admin \<and>
   accessLevel (handleSubmit example_settings example_date
      (initial_gate\<lparr>code := ''CLIENT-3-11-2026''\<rparr>)) = none \<and>
   gate_error (handleSubmit example_settings example_date
      (initial_gate\<lparr>code := ''CLIENT-3-11-2026''\<rparr>)) = ''Invalid access code.''"
proof -
  have fmt: "accessSecret example_settings @ ''-'' @
              padStart 2 ''0'' (string_of_nat (getDate example_date)) @ ''-'' @
              padStart 2 ''0'' (string_of_nat (getMonth example_date + 1)) @ ''-'' @
              string_of_int (getFullYear example_date) = ''CLIENT-03-11-2026''"
    by code_simp
  have h1: "code (initial_gate\<lparr>code := ''CLIENT-03-11-2026''\<rparr>) =
      accessSecret example_settings @ ''-'' @
              padStart 2 ''0'' (string_of_nat (getDate example_date)) @ ''-'' @
              padStart 2 ''0'' (string_of_nat (getMonth example_date + 1)) @ ''-'' @
              string_of_int (getFullYear example_date)"
    by (simp only: fmt) simp
  have h2: "code (initial_gate\<lparr>code := ''admin-unlock-righteye''\<rparr>) = ''admin-unlock-righteye''"
    by simp
  have h3: "code (initial_gate\<lparr>code := ''CLIENT-3-11-2026''\<rparr>) \<noteq> ''admin-unlock-righteye'' \<and>
      code (initial_gate\<lparr>code := ''CLIENT-3-11-2026''\<rparr>) \<noteq>
        getClientCode example_settings example_date \<and>
      accessLevel (initial_gate\<lparr>code := ''CLIENT-3-11-2026''\<rparr>) = none"
    by (simp add: example_client_code initial_gate_def)
  from access_gate_codes [of "initial_gate\<lparr>code := ''CLIENT-03-11-2026''\<rparr>"
      example_settings example_date] h1
  have r1: "accessLevel (handleSubmit example_settings example_date
      (initial_gate\<lparr>code := ''CLIENT-03-11-2026''\<rparr>)) = client" by blast
  from access_gate_codes [of "initial_gate\<lparr>code := ''admin-unlock-righteye''\<rparr>"
      example_settings example_date] h2
  have r2: "accessLevel (handleSubmit example_settings example_date
      (initial_gate\<lparr>code := ''admin-unlock-righteye''\<rparr>)) = admin" by blast
  from access_gate_codes [of "initial_gate\<lparr>code := ''CLIENT-3-11-2026''\<rparr>"
      example_settings example_date] h3
  have r3: "accessLevel (handleSubmit example_settings example_date
      (initial_gate\<lparr>code := ''CLIENT-3-11-2026''\<rparr>)) = none \<and>
   gate_error (handleSubmit example_settings example_date
      (initial_gate\<lparr>code := ''CLIENT-3-11-2026''\<rparr>)) = ''Invalid access code.''" by blast
  from r1 r2 r3 show ?thesis by blast
qed

section \<open>The guest path\<close>

lemma handleSubmit_raises:
  "accessLevel g = none \<Longrightarrow> accessLevel (handleSubmit adminSettings date g) \<noteq> none \<Longrightarrow>
   code g = ADMIN_CODE \<or> code g = getClientCode adminSettings date"
  by (auto simp add: handleSubmit_def split: if_splits)

lemma handleSubmit_empty_code:
  "code g = [] \<Longrightarrow> handleSubmit adminSettings date g = g\<lparr>gate_error := ''Invalid access code.''\<rparr>"
  using getClientCode_last [of adminSettings date] ADMIN_CODE_not_empty
  by (auto simp add: handleSubmit_def)

lemma gate_step_code_free:
  assumes "isGateEnabled adminSettings" "\<not> enters_code ev"
    and "gate_step adminSettings date ev g = Some g'"
    and "code g = []"
  shows "accessLevel g' = none \<and> code g' = []"
proof (cases ev)
  case (ChangeCode v)
  with assms(2) show ?thesis by simp
next
  case ToggleShowPassword
  with assms(3,4) show ?thesis
    by (auto simp add: gate_step_def split: if_splits)
next
  case Submit
  with assms(3,4) show ?thesis
    by (auto simp add: gate_step_def handleSubmit_empty_code split: if_splits)
next
  case ContinueAsGuest
  with assms(1,3) show ?thesis
    by (simp add: gate_step_def split: if_splits)
qed

lemma gate_run_code_free:
  "isGateEnabled adminSettings \<Longrightarrow> list_all (\<lambda>(date, ev). \<not> enters_code ev) evs \<Longrightarrow>
   accessLevel g = none \<Longrightarrow> code g = [] \<Longrightarrow>
   gate_run adminSettings evs g = Some g' \<Longrightarrow> accessLevel g' = none"
proof (induction evs arbitrary: g)
  case Nil
  then show ?case by simp
next
  case (Cons p evs)
  obtain date ev where p: "p = (date, ev)" by (cases p)
  from Cons.prems(5) p obtain g1 where
    step: "gate_step adminSettings date ev g = Some g1" and
    run: "gate_run adminSettings evs g1 = Some g'"
    by (auto split: option.splits)
  from Cons.prems(2) p have nc: "\<not> enters_code ev" and rest: "list_all (\<lambda>(date, ev). \<not> enters_code ev) evs"
    by simp_all
  from gate_step_code_free [OF Cons.prems(1) nc step Cons.prems(4)]
  have "accessLevel g1 = none" "code g1 = []" by simp_all
  with Cons.IH [OF Cons.prems(1) rest _ _ run] show ?case by simp
qed

text \<open>
  C10. When the gate is not enabled, "Continue as Guest" sets the access level to client
  from any gate state at level none, whatever the code field holds. When the gate is
  enabled, an event that leaves the access level other than none is a submission of a
  non-empty code equal to the admin code or to the client code of the day; and from the
  initial gate no sequence of events without typing a code leaves level none.
\<close>

theorem guest_path_only_when_gate_disabled:
  "(\<not> isGateEnabled adminSettings \<and> accessLevel g = none \<longrightarrow>
      gate_step adminSettings date ContinueAsGuest g = Some (g\<lparr>accessLevel := client\<rparr>)) \<and>
   (isGateEnabled adminSettings \<and> gate_step adminSettings date ev g = Some g' \<and>
    accessLevel g' \<noteq> none \<longrightarrow>
      ev = Submit \<and> code g \<noteq> '''' \<and>
      (code g = ADMIN_CODE \<or> code g = getClientCode adminSettings date)) \<and>
   (isGateEnabled adminSettings \<and> list_all (\<lambda>(date, ev). \<not> enters_code ev) evs \<and>
    gate_run adminSettings evs initial_gate = Some g' \<longrightarrow>
      accessLevel g' = none)"
proof -
  have a: "gate_step adminSettings date ContinueAsGuest g = Some (g\<lparr>accessLevel := client\<rparr>)"
    if "\<not> isGateEnabled adminSettings" "accessLevel g = none"
    using that by (simp add: gate_step_def)
  have b: "ev = Submit \<and> code g \<noteq> '''' \<and>
      (code g = ADMIN_CODE \<or> code g = getClientCode adminSettings date)"
    if en: "isGateEnabled adminSettings"
      and step: "gate_step adminSettings date ev g = Some g'"
      and lvl: "accessLevel g' \<noteq> none"
  proof -
    from step have g0: "accessLevel g = none"
      by (simp add: gate_step_def split: if_splits)
    from en step lvl g0 have ev: "ev = Submit"
      by (cases ev) (auto simp add: gate_step_def)
    with step g0 have g': "g' = handleSubmit adminSettings date g"
      by (simp add: gate_step_def)
    with lvl g0 have m: "code g = ADMIN_CODE \<or> code g = getClientCode adminSettings date"
      using handleSubmit_raises by blast
    with getClientCode_last [of adminSettings date] ADMIN_CODE_not_empty
    have "code g \<noteq> ''''" by auto
    with ev m show ?thesis by simp
  qed
  have c: "accessLevel g' = none"
    if "isGateEnabled adminSettings" "list_all (\<lambda>(date, ev). \<not> enters_code ev) evs"
       "gate_run adminSettings evs initial_gate = Some g'"
    using gate_run_code_free [OF that(1,2) _ _ that(3)] by (simp add: initial_gate_def)
  from a b c show ?thesis by blast
qed

text \<open>
  The guest button with the gate switched off; the admin code, and a submission of the
  empty code, with the gate on.
\<close>

theorem guest_path_only_when_gate_disabled_witness:
  "gate_step (example_settings\<lparr>isGateEnabled := False\<rparr>) example_date ContinueAsGuest initial_gate =
     Some (initial_gate\<lparr>accessLevel := client\<rparr>) \<and>
   gate_step example_settings example_date Submit (initial_gate\<lparr>code := ''admin-unlock-righteye''\<rparr>) =
     Some (initial_gate\<lparr>code := ''admin-unlock-righteye'', accessLevel := admin\<rparr>) \<and>
   code (initial_gate\<lparr>code := ''admin-unlock-righteye''\<rparr>) = ADMIN_CODE \<and>
   gate_run example_settings [(example_date, Submit), (example_date, ToggleShowPassword)] initial_gate =
     Some (initial_gate\<lparr>gate_error := ''Invalid access code.'', showPassword := True\<rparr>) \<and>
   accessLevel (initial_gate\<lparr>gate_error := ''Invalid access code.'', showPassword := True\<rparr>) = none"
proof -
  let ?off = "example_settings\<lparr>isGateEnabled := False\<rparr>"
  let ?ga = "initial_gate\<lparr>code := ''admin-unlock-righteye''\<rparr>"
  let ?ga' = "initial_gate\<lparr>code := ''admin-unlock-righteye'', accessLevel := admin\<rparr>"
  let ?evs = "[(example_date, Submit), (example_date, ToggleShowPassword)]"
  let ?g2 = "initial_gate\<lparr>gate_error := ''Invalid access code.'', showPassword := True\<rparr>"
  have h1: "\<not> isGateEnabled ?off \<and> accessLevel initial_gate = none"
    by (simp add: initial_gate_def)
  have step: "gate_step example_settings example_date Submit ?ga = Some ?ga'"
    by (simp add: gate_step_def handleSubmit_def ADMIN_CODE_def initial_gate_def)
  have h2: "isGateEnabled example_settings \<and>
      gate_step example_settings example_date Submit ?ga = Some ?ga' \<and> accessLevel ?ga' \<noteq> none"
    using step by (simp add: example_settings_def)
  have run: "gate_run example_settings ?evs initial_gate = Some ?g2"
    by (simp add: gate_step_def handleSubmit_empty_code initial_gate_def)
  have h3: "isGateEnabled example_settings \<and> list_all (\<lambda>(date, ev). \<not> enters_code ev) ?evs \<and>
      gate_run example_settings ?evs initial_gate = Some ?g2"
    using run by (simp add: example_settings_def)
  from guest_path_only_when_gate_disabled [of ?off initial_gate example_date Submit ?ga' "[]"] h1
  have r1: "gate_step ?off example_date ContinueAsGuest initial_gate =
     Some (initial_gate\<lparr>accessLevel := client\<rparr>)" by blast
  from guest_path_only_when_gate_disabled [of example_settings ?ga example_date Submit ?ga' "[]"] h2
  have r2: "code ?ga = ADMIN_CODE \<or> code ?ga = getClientCode example_settings example_date"
    by blast
  have r2': "code ?ga = ADMIN_CODE" by (simp add: ADMIN_CODE_def)
  from guest_path_only_when_gate_disabled [of example_settings initial_gate example_date Submit ?g2 ?evs] h3
  have r3: "accessLevel ?g2 = none" by blast
  from r1 step r2' run r3 show ?thesis by blast
qed

end
